theory Spec2Isabelle
  imports Complex_Main "HOL-Library.Word"
begin

unbundle bit_operations_syntax

section \<open>Data of the Vulkan and GLFW interfaces used by main.cpp\<close>

text \<open>
  The program is one class, \<open>HelloTriangleApplication\<close>, that drives two external
  libraries: GLFW (the window system) and Vulkan (the graphics subsystem). Neither library
  is part of the repository. Their answers are collected in a \<open>host\<close> record (below), and
  every call the program issues is appended to a trace, so that statements about which
  calls happen, with which arguments and in which order, can be made.

  Handles are opaque pointers in C++. A handle is modelled as \<open>nat option\<close>: \<open>None\<close> is the
  null handle (\<open>VK_NULL_HANDLE\<close>, \<open>nullptr\<close>), \<open>Some n\<close> is the object number \<open>n\<close> of the host.
  The same convention is used for pointers to arrays: \<open>None\<close> is \<open>nullptr\<close>.

  C++ field names are scoped by their struct, HOL record fields are global. A field name
  that occurs in several Vulkan structs keeps its name in the first struct and carries the
  struct as a suffix in the others. Of each Vulkan struct the records keep the fields the
  program reads or writes; \<open>pNext\<close> and the other fields it leaves zero are left out.
\<close>

type_synonym uint32_t = "32 word"

type_synonym VkResult = int

definition VK_SUCCESS :: VkResult where
  "VK_SUCCESS = 0"

abbreviation (input) VK_NULL_HANDLE :: "'a option" where
  "VK_NULL_HANDLE \<equiv> None"

type_synonym GLFWwindow = "nat option"
type_synonym VkInstance = "nat option"
type_synonym VkPhysicalDevice = "nat option"
type_synonym VkDevice = "nat option"
type_synonym VkQueue = "nat option"

text \<open>Constants of the Vulkan headers (vulkan_core.h), with the values the headers give them.\<close>

definition VK_QUEUE_GRAPHICS_BIT :: uint32_t where
  "VK_QUEUE_GRAPHICS_BIT = 1"

definition VK_INSTANCE_CREATE_ENUMERATE_PORTABILITY_BIT_KHR :: uint32_t where
  "VK_INSTANCE_CREATE_ENUMERATE_PORTABILITY_BIT_KHR = 1"

definition VK_MAKE_VERSION :: "uint32_t \<Rightarrow> uint32_t \<Rightarrow> uint32_t \<Rightarrow> uint32_t" where
  "VK_MAKE_VERSION major minor patch = (push_bit 22 major OR push_bit 12 minor OR patch)"

definition VK_API_VERSION_1_2 :: uint32_t where
  "VK_API_VERSION_1_2 = VK_MAKE_VERSION 1 2 0"

definition VK_KHR_SWAPCHAIN_EXTENSION_NAME :: string where
  "VK_KHR_SWAPCHAIN_EXTENSION_NAME = ''VK_KHR_swapchain''"

datatype VkStructureType =
    VK_STRUCTURE_TYPE_APPLICATION_INFO
  | VK_STRUCTURE_TYPE_INSTANCE_CREATE_INFO
  | VK_STRUCTURE_TYPE_DEVICE_QUEUE_CREATE_INFO
  | VK_STRUCTURE_TYPE_DEVICE_CREATE_INFO

datatype glfw_hint = GLFW_CLIENT_API | GLFW_RESIZABLE

datatype glfw_hint_value = GLFW_NO_API | GLFW_FALSE

record VkLayerProperties =
  layerName :: string

record VkQueueFamilyProperties =
  queueFlags :: uint32_t
  queueCount_family :: uint32_t

record VkApplicationInfo =
  sType_app :: VkStructureType
  pApplicationName :: string
  applicationVersion :: uint32_t
  pEngineName :: string
  engineVersion :: uint32_t
  apiVersion :: uint32_t

record VkInstanceCreateInfo =
  sType :: VkStructureType
  flags :: uint32_t
  pApplicationInfo :: "VkApplicationInfo option"
  enabledLayerCount :: uint32_t
  ppEnabledLayerNames :: "string list option"
  enabledExtensionCount :: uint32_t
  ppEnabledExtensionNames :: "string list option"

record VkDeviceQueueCreateInfo =
  sType_queue :: VkStructureType
  queueFamilyIndex :: uint32_t
  queueCount :: uint32_t
  pQueuePriorities :: "real list option"

text \<open>
  \<open>VkPhysicalDeviceFeatures\<close> is a struct of boolean switches. The program value-initialises
  it (all switches off) and never sets one, so the list of switched-on features stands for it.
\<close>

type_synonym VkPhysicalDeviceFeatures = "string list"

record VkDeviceCreateInfo =
  sType_dev :: VkStructureType
  pQueueCreateInfos :: "VkDeviceQueueCreateInfo list option"
  queueCreateInfoCount :: uint32_t
  pEnabledFeatures :: "VkPhysicalDeviceFeatures option"
  enabledExtensionCount_dev :: uint32_t
  ppEnabledExtensionNames_dev :: "string list option"
  enabledLayerCount_dev :: uint32_t
  ppEnabledLayerNames_dev :: "string list option"

subsection \<open>Global constants of main.cpp\<close>

definition WIDTH :: uint32_t where
  "WIDTH = 800"

definition HEIGHT :: uint32_t where
  "HEIGHT = 600"

definition validationLayers :: "string list" where
  "validationLayers = [''VK_LAYER_KHRONOS_validation'']"

text \<open>
  \<open>enableValidationLayers\<close> is fixed at compile time by \<open>NDEBUG\<close>: \<open>false\<close> in a release
  build, \<open>true\<close> in a debug build. It is the first parameter of every operation that reads it.
\<close>

subsection \<open>QueueFamilyIndices\<close>

record QueueFamilyIndices =
  graphicsFamily :: "uint32_t option"

definition isComplete :: "QueueFamilyIndices \<Rightarrow> bool" where
  "isComplete indices = (graphicsFamily indices \<noteq> None)"

subsection \<open>The host and the trace of calls\<close>

text \<open>
  One constructor per library function the program calls, with the arguments that matter.
  The two creation calls carry the result code the host returned, and \<open>GlfwCreateWindow\<close>
  the window it returned.
\<close>

datatype call =
    GlfwInit
  | GlfwWindowHint glfw_hint glfw_hint_value
  | GlfwCreateWindow uint32_t uint32_t string GLFWwindow
  | GlfwWindowShouldClose GLFWwindow
  | GlfwPollEvents
  | GlfwDestroyWindow GLFWwindow
  | GlfwTerminate
  | GlfwGetRequiredInstanceExtensions
  | VkEnumerateInstanceLayerProperties
  | VkCreateInstance VkInstanceCreateInfo VkResult
  | VkDestroyInstance VkInstance
  | VkEnumeratePhysicalDevices VkInstance
  | VkGetPhysicalDeviceQueueFamilyProperties nat
  | VkCreateDevice nat VkDeviceCreateInfo VkResult
  | VkGetDeviceQueue VkDevice uint32_t uint32_t
  | VkDestroyDevice VkDevice

text \<open>
  The host: what the two libraries answer. The host is fixed during a run, so a query that
  the program repeats (count first, data second) gets the same answer both times.
  \<^item> \<open>createdWindow\<close>: the window \<open>glfwCreateWindow\<close> returns; the program does not test the
    result, and the host is taken to deliver a window;
  \<^item> \<open>requiredInstanceExtensions\<close>: the array \<open>glfwGetRequiredInstanceExtensions\<close> returns;
  \<^item> \<open>instanceLayerProperties\<close>: the layers \<open>vkEnumerateInstanceLayerProperties\<close> reports;
  \<^item> \<open>vkCreateInstance_result\<close>, \<open>createdInstance\<close>: result code of \<open>vkCreateInstance\<close> for a
    request, and the instance written on success;
  \<^item> \<open>physicalDevices\<close>: the devices \<open>vkEnumeratePhysicalDevices\<close> reports, in its order
    (never a null handle: the entries are object numbers);
  \<^item> \<open>queueFamilyProperties\<close>: the queue families of a device, in index order;
  \<^item> \<open>vkCreateDevice_result\<close>, \<open>createdDevice\<close>: result code of \<open>vkCreateDevice\<close>, and the
    device written on success;
  \<^item> \<open>deviceQueue\<close>: the queue \<open>vkGetDeviceQueue\<close> hands out for a family and a queue index;
  \<^item> \<open>windowShouldClose\<close>: the answer of \<open>glfwWindowShouldClose\<close> after \<open>k\<close> rounds of
    \<open>glfwPollEvents\<close>.
\<close>

record host =
  createdWindow :: nat
  requiredInstanceExtensions :: "string list"
  instanceLayerProperties :: "VkLayerProperties list"
  vkCreateInstance_result :: "VkInstanceCreateInfo \<Rightarrow> VkResult"
  createdInstance :: nat
  physicalDevices :: "nat list"
  queueFamilyProperties :: "nat \<Rightarrow> VkQueueFamilyProperties list"
  vkCreateDevice_result :: "nat \<Rightarrow> VkDeviceCreateInfo \<Rightarrow> VkResult"
  createdDevice :: nat
  deviceQueue :: "uint32_t \<Rightarrow> uint32_t \<Rightarrow> nat"
  windowShouldClose :: "nat \<Rightarrow> bool"

text \<open>
  The members of \<open>HelloTriangleApplication\<close> (the member \<open>instance\<close> is written
  \<open>instance'\<close>), and the trace of the calls issued so far, oldest first.
\<close>

record HelloTriangleApplication =
  window :: GLFWwindow
  instance' :: VkInstance
  device :: VkDevice
  physicalDevice :: VkPhysicalDevice
  graphicsQueue :: VkQueue
  trace :: "call list"

definition issue :: "call \<Rightarrow> HelloTriangleApplication \<Rightarrow> HelloTriangleApplication" where
  "issue c app = app\<lparr>trace := trace app @ [c]\<rparr>"

text \<open>The freshly constructed object: every member is null (the default member initialisers).\<close>

definition HelloTriangleApplication_new :: HelloTriangleApplication where
  "HelloTriangleApplication_new =
     \<lparr>window = None, instance' = None, device = None, physicalDevice = VK_NULL_HANDLE,
      graphicsQueue = None, trace = []\<rparr>"

text \<open>
  The exceptions. The program throws \<open>std::runtime_error\<close> with a message; the
  constructors are named after the error kinds of the specification:
  \<open>LayerUnavailable\<close> is "validation layers requested, but not available!",
  \<open>InstanceCreationFailed code\<close> is "failed to create instance! Error code: " and the code,
  \<open>NoDevicesFound\<close> is "failed to find GPUs with Vulkan support!",
  \<open>NoSuitableDevice\<close> is "failed to find a suitable GPU!",
  \<open>DeviceCreationFailed\<close> is "failed to create logical device!".
  \<open>BadOptionalAccess\<close> is \<open>std::bad_optional_access\<close>, thrown by \<open>value()\<close> on an empty
  optional. \<open>NullPhysicalDevice\<close> stands for passing \<open>VK_NULL_HANDLE\<close> as the physical device
  to the driver, which Vulkan leaves undefined.
\<close>

datatype error =
    LayerUnavailable
  | InstanceCreationFailed VkResult
  | NoDevicesFound
  | NoSuitableDevice
  | DeviceCreationFailed
  | BadOptionalAccess
  | NullPhysicalDevice

section \<open>The operations of HelloTriangleApplication\<close>

text \<open>
  A \<open>void\<close> member function is a function from the object to \<open>error option \<times> object\<close>:
  \<open>None\<close> when it returns, \<open>Some e\<close> when it throws \<open>e\<close>; the object (and the trace) is as the
  function left it in both cases.
\<close>

subsection \<open>findQueueFamilies and isDeviceSuitable\<close>

text \<open>
  The loop of \<open>findQueueFamilies\<close> over the remaining queue families. \<open>i\<close> is the C++ \<open>int i\<close>
  as its 32-bit pattern (it is converted to \<open>uint32_t\<close> when stored in \<open>graphicsFamily\<close>).
\<close>

fun findQueueFamilies_loop ::
  "uint32_t \<Rightarrow> VkQueueFamilyProperties list \<Rightarrow> QueueFamilyIndices \<Rightarrow> QueueFamilyIndices" where
  "findQueueFamilies_loop i [] indices = indices"
| "findQueueFamilies_loop i (queueFamily # rest) indices =
     (let indices =
        (if queueFlags queueFamily AND VK_QUEUE_GRAPHICS_BIT \<noteq> 0
         then indices\<lparr>graphicsFamily := Some i\<rparr> else indices)
      in if isComplete indices then indices
         else findQueueFamilies_loop (i + 1) rest indices)"

definition findQueueFamilies ::
  "host \<Rightarrow> nat \<Rightarrow> HelloTriangleApplication \<Rightarrow> QueueFamilyIndices \<times> HelloTriangleApplication" where
  "findQueueFamilies h device_candidate app =
     (let indices = \<lparr>graphicsFamily = None\<rparr>;
          app = issue (VkGetPhysicalDeviceQueueFamilyProperties device_candidate) app;
          queueFamilies = queueFamilyProperties h device_candidate;
          app = issue (VkGetPhysicalDeviceQueueFamilyProperties device_candidate) app
      in (findQueueFamilies_loop 0 queueFamilies indices, app))"

definition isDeviceSuitable ::
  "host \<Rightarrow> nat \<Rightarrow> HelloTriangleApplication \<Rightarrow> bool \<times> HelloTriangleApplication" where
  "isDeviceSuitable h device_candidate app =
     (case findQueueFamilies h device_candidate app of
        (indices, app) \<Rightarrow> (isComplete indices, app))"

text \<open>The test of line 200, named for the statements below.\<close>

definition supportsGraphics :: "VkQueueFamilyProperties \<Rightarrow> bool" where
  "supportsGraphics queueFamily = (queueFlags queueFamily AND VK_QUEUE_GRAPHICS_BIT \<noteq> 0)"

text \<open>
  The specification's scan, for comparison with the loop of the source: every queue family
  is visited, none is skipped and there is no early exit; the answer is the first index
  whose flags include the graphics bit.
\<close>

definition fullScan :: "VkQueueFamilyProperties list \<Rightarrow> nat option" where
  "fullScan queueFamilies =
     (case filter (\<lambda>i. supportsGraphics (queueFamilies ! i)) [0..<length queueFamilies] of
        [] \<Rightarrow> None
      | i # _ \<Rightarrow> Some i)"

subsection \<open>checkValidationLayerSupport\<close>

text \<open>
  \<open>strcmp\<close> of the C library on strings without their terminating NUL: the sign of the
  first differing byte (bytes compared as unsigned), a proper prefix being smaller.
\<close>

fun strcmp :: "string \<Rightarrow> string \<Rightarrow> int" where
  "strcmp [] [] = 0"
| "strcmp [] (b # bs) = - 1"
| "strcmp (a # as) [] = 1"
| "strcmp (a # as) (b # bs) =
     (if a = b then strcmp as bs
      else if (of_char a :: nat) < of_char b then - 1 else 1)"

text \<open>The inner loop: is \<open>name\<close> among the available layers?\<close>

fun layerFound_loop :: "string \<Rightarrow> VkLayerProperties list \<Rightarrow> bool" where
  "layerFound_loop name [] = False"
| "layerFound_loop name (layerProperties # rest) =
     (if strcmp name (layerName layerProperties) = 0 then True
      else layerFound_loop name rest)"

text \<open>The outer loop over the requested layers, returning \<open>false\<close> at the first one not found.\<close>

fun checkValidationLayerSupport_loop :: "string list \<Rightarrow> VkLayerProperties list \<Rightarrow> bool" where
  "checkValidationLayerSupport_loop [] availableLayers = True"
| "checkValidationLayerSupport_loop (name # rest) availableLayers =
     (let layerFound = layerFound_loop name availableLayers
      in if \<not> layerFound then False
         else checkValidationLayerSupport_loop rest availableLayers)"

definition checkValidationLayerSupport ::
  "host \<Rightarrow> HelloTriangleApplication \<Rightarrow> bool \<times> HelloTriangleApplication" where
  "checkValidationLayerSupport h app =
     (let app = issue VkEnumerateInstanceLayerProperties app;
          availableLayers = instanceLayerProperties h;
          app = issue VkEnumerateInstanceLayerProperties app
      in (checkValidationLayerSupport_loop validationLayers availableLayers, app))"

subsection \<open>createInstance\<close>

text \<open>
  The value-initialised structs (\<open>T x{}\<close>): every field zero, every pointer null. The zero
  of \<open>VkStructureType\<close> is \<open>VK_STRUCTURE_TYPE_APPLICATION_INFO\<close>.
\<close>

definition VkApplicationInfo_zero :: VkApplicationInfo where
  "VkApplicationInfo_zero =
     \<lparr>sType_app = VK_STRUCTURE_TYPE_APPLICATION_INFO, pApplicationName = [],
      applicationVersion = 0, pEngineName = [], engineVersion = 0, apiVersion = 0\<rparr>"

definition VkInstanceCreateInfo_zero :: VkInstanceCreateInfo where
  "VkInstanceCreateInfo_zero =
     \<lparr>sType = VK_STRUCTURE_TYPE_APPLICATION_INFO, flags = 0, pApplicationInfo = None,
      enabledLayerCount = 0, ppEnabledLayerNames = None,
      enabledExtensionCount = 0, ppEnabledExtensionNames = None\<rparr>"

definition VkDeviceQueueCreateInfo_zero :: VkDeviceQueueCreateInfo where
  "VkDeviceQueueCreateInfo_zero =
     \<lparr>sType_queue = VK_STRUCTURE_TYPE_APPLICATION_INFO, queueFamilyIndex = 0,
      queueCount = 0, pQueuePriorities = None\<rparr>"

definition VkDeviceCreateInfo_zero :: VkDeviceCreateInfo where
  "VkDeviceCreateInfo_zero =
     \<lparr>sType_dev = VK_STRUCTURE_TYPE_APPLICATION_INFO, pQueueCreateInfos = None,
      queueCreateInfoCount = 0, pEnabledFeatures = None,
      enabledExtensionCount_dev = 0, ppEnabledExtensionNames_dev = None,
      enabledLayerCount_dev = 0, ppEnabledLayerNames_dev = None\<rparr>"

text \<open>
  Lines 219 to 263. The test of line 219 is \<open>enableValidationLayers && !check...()\<close>: the
  right operand runs only when the left one is true. The request is filled field by field
  in the order of the source, including the two assignments of lines 255 and 256 that
  follow the \<open>if\<close>/\<open>else\<close> of lines 237 to 243.
\<close>

definition createInstance ::
  "bool \<Rightarrow> host \<Rightarrow> HelloTriangleApplication \<Rightarrow> error option \<times> HelloTriangleApplication" where
  "createInstance enableValidationLayers h app =
     (case (if enableValidationLayers
            then (case checkValidationLayerSupport h app of
                    (supported, app) \<Rightarrow> (\<not> supported, app))
            else (False, app)) of
        (unavailable, app) \<Rightarrow>
          if unavailable then (Some LayerUnavailable, app)
          else
            (let appInfo = VkApplicationInfo_zero
                   \<lparr>sType_app := VK_STRUCTURE_TYPE_APPLICATION_INFO,
                    pApplicationName := ''Hello Triangle'',
                    applicationVersion := VK_MAKE_VERSION 1 0 0,
                    pEngineName := ''No Engine'',
                    engineVersion := VK_MAKE_VERSION 1 0 0,
                    apiVersion := VK_API_VERSION_1_2\<rparr>;
                 createInfo = VkInstanceCreateInfo_zero
                   \<lparr>sType := VK_STRUCTURE_TYPE_INSTANCE_CREATE_INFO,
                    flags := VK_INSTANCE_CREATE_ENUMERATE_PORTABILITY_BIT_KHR,
                    pApplicationInfo := Some appInfo\<rparr>;
                 createInfo =
                   (if enableValidationLayers
                    then createInfo
                      \<lparr>enabledLayerCount := of_nat (length validationLayers),
                       ppEnabledLayerNames := Some validationLayers\<rparr>
                    else createInfo\<lparr>enabledLayerCount := 0\<rparr>);
                 app = issue GlfwGetRequiredInstanceExtensions app;
                 enabledExtensions =
                   requiredInstanceExtensions h @ [''VK_KHR_portability_enumeration''];
                 createInfo = createInfo
                   \<lparr>enabledExtensionCount := of_nat (length enabledExtensions),
                    ppEnabledExtensionNames := Some enabledExtensions\<rparr>;
                 createInfo = createInfo
                   \<lparr>enabledLayerCount := of_nat (length validationLayers),
                    ppEnabledLayerNames := Some validationLayers\<rparr>;
                 result = vkCreateInstance_result h createInfo;
                 app = issue (VkCreateInstance createInfo result) app;
                 app = (if result = VK_SUCCESS
                        then app\<lparr>instance' := Some (createdInstance h)\<rparr> else app)
             in if result \<noteq> VK_SUCCESS then (Some (InstanceCreationFailed result), app)
                else (None, app)))"

subsection \<open>pickPhysicalDevice\<close>

text \<open>The loop of lines 164 to 169 over the remaining candidates.\<close>

fun pickPhysicalDevice_loop ::
  "host \<Rightarrow> nat list \<Rightarrow> HelloTriangleApplication \<Rightarrow> HelloTriangleApplication" where
  "pickPhysicalDevice_loop h [] app = app"
| "pickPhysicalDevice_loop h (device_candidate # rest) app =
     (case isDeviceSuitable h device_candidate app of
        (suitable, app) \<Rightarrow>
          if suitable then app\<lparr>physicalDevice := Some device_candidate\<rparr>
          else pickPhysicalDevice_loop h rest app)"

definition pickPhysicalDevice ::
  "host \<Rightarrow> HelloTriangleApplication \<Rightarrow> error option \<times> HelloTriangleApplication" where
  "pickPhysicalDevice h app =
     (let app = issue (VkEnumeratePhysicalDevices (instance' app)) app;
          deviceCount = length (physicalDevices h)
      in if deviceCount = 0 then (Some NoDevicesFound, app)
         else
           (let app = issue (VkEnumeratePhysicalDevices (instance' app)) app;
                devices = physicalDevices h;
                app = pickPhysicalDevice_loop h devices app
            in if physicalDevice app = VK_NULL_HANDLE then (Some NoSuitableDevice, app)
               else (None, app)))"

subsection \<open>createLogicalDevice\<close>

text \<open>
  Lines 103 to 143. \<open>indices.graphicsFamily.value()\<close> is read twice (lines 108 and 143);
  each read throws \<open>std::bad_optional_access\<close> on an empty optional.
\<close>

definition createLogicalDevice ::
  "bool \<Rightarrow> host \<Rightarrow> HelloTriangleApplication \<Rightarrow> error option \<times> HelloTriangleApplication" where
  "createLogicalDevice enableValidationLayers h app =
     (case physicalDevice app of
        None \<Rightarrow> (Some NullPhysicalDevice, app)
      | Some pd \<Rightarrow>
         (case findQueueFamilies h pd app of
            (indices, app) \<Rightarrow>
              (case graphicsFamily indices of
                 None \<Rightarrow> (Some BadOptionalAccess, app)
               | Some family \<Rightarrow>
                  (let queuePriority = 1;
                       queueCreateInfo = VkDeviceQueueCreateInfo_zero
                         \<lparr>sType_queue := VK_STRUCTURE_TYPE_DEVICE_QUEUE_CREATE_INFO,
                          queueFamilyIndex := family,
                          queueCount := 1,
                          pQueuePriorities := Some [queuePriority]\<rparr>;
                       deviceFeatures = [];
                       deviceExtensions =
                         [VK_KHR_SWAPCHAIN_EXTENSION_NAME, ''VK_KHR_portability_subset''];
                       createInfo = VkDeviceCreateInfo_zero
                         \<lparr>sType_dev := VK_STRUCTURE_TYPE_DEVICE_CREATE_INFO,
                          pQueueCreateInfos := Some [queueCreateInfo],
                          queueCreateInfoCount := 1,
                          pEnabledFeatures := Some deviceFeatures,
                          enabledExtensionCount_dev := of_nat (length deviceExtensions),
                          ppEnabledExtensionNames_dev := Some deviceExtensions\<rparr>;
                       createInfo =
                         (if enableValidationLayers
                          then createInfo
                            \<lparr>enabledLayerCount_dev := of_nat (length validationLayers),
                             ppEnabledLayerNames_dev := Some validationLayers\<rparr>
                          else createInfo\<lparr>enabledLayerCount_dev := 0\<rparr>);
                       result = vkCreateDevice_result h pd createInfo;
                       app = issue (VkCreateDevice pd createInfo result) app
                   in if result \<noteq> VK_SUCCESS then (Some DeviceCreationFailed, app)
                      else
                        (let app = app\<lparr>device := Some (createdDevice h)\<rparr>
                         in case graphicsFamily indices of
                              None \<Rightarrow> (Some BadOptionalAccess, app)
                            | Some family \<Rightarrow>
                                (None,
                                 (issue (VkGetDeviceQueue (device app) family 0) app)
                                   \<lparr>graphicsQueue := Some (deviceQueue h family 0)\<rparr>))))))"

subsection \<open>The life cycle: initWindow, initVulkan, mainLoop, cleanup, run, main\<close>

definition initWindow :: "host \<Rightarrow> HelloTriangleApplication \<Rightarrow> HelloTriangleApplication" where
  "initWindow h app =
     (let app = issue GlfwInit app;
          app = issue (GlfwWindowHint GLFW_CLIENT_API GLFW_NO_API) app;
          app = issue (GlfwWindowHint GLFW_RESIZABLE GLFW_FALSE) app;
          app = issue (GlfwCreateWindow WIDTH HEIGHT ''Vulkan'' (Some (createdWindow h))) app
      in app\<lparr>window := Some (createdWindow h)\<rparr>)"

definition initVulkan ::
  "bool \<Rightarrow> host \<Rightarrow> HelloTriangleApplication \<Rightarrow> error option \<times> HelloTriangleApplication" where
  "initVulkan enableValidationLayers h app =
     (case createInstance enableValidationLayers h app of
        (Some e, app) \<Rightarrow> (Some e, app)
      | (None, app) \<Rightarrow>
         (case pickPhysicalDevice h app of
            (Some e, app) \<Rightarrow> (Some e, app)
          | (None, app) \<Rightarrow> createLogicalDevice enableValidationLayers h app))"

text \<open>
  The main loop may run forever: it ends when the window system reports a close request.
  \<open>k\<close> counts the rounds of \<open>glfwPollEvents\<close> done so far. The result \<open>None\<close> is a loop that
  never ends.
\<close>

partial_function (option) mainLoop ::
  "host \<Rightarrow> nat \<Rightarrow> HelloTriangleApplication \<Rightarrow> HelloTriangleApplication option" where
  "mainLoop h k app =
     (let app = issue (GlfwWindowShouldClose (window app)) app
      in if windowShouldClose h k then Some app
         else mainLoop h (Suc k) (issue GlfwPollEvents app))"

declare mainLoop.simps [code]

definition cleanup :: "HelloTriangleApplication \<Rightarrow> HelloTriangleApplication" where
  "cleanup app =
     (let app = issue (VkDestroyDevice (device app)) app;
          app = issue (VkDestroyInstance (instance' app)) app;
          app = issue (GlfwDestroyWindow (window app)) app
      in issue GlfwTerminate app)"

text \<open>
  \<open>run\<close> is the four calls of lines 42 to 45 in sequence. An exception thrown by \<open>initVulkan\<close>
  leaves \<open>run\<close> at once: \<open>mainLoop\<close> and \<open>cleanup\<close> are not reached, and the class has no
  destructor. The outer \<open>option\<close> is \<open>None\<close> when the main loop never ends.
\<close>

definition run ::
  "bool \<Rightarrow> host \<Rightarrow> HelloTriangleApplication
     \<Rightarrow> (error option \<times> HelloTriangleApplication) option" where
  "run enableValidationLayers h app =
     (let app = initWindow h app
      in case initVulkan enableValidationLayers h app of
           (Some e, app) \<Rightarrow> Some (Some e, app)
         | (None, app) \<Rightarrow>
            (case mainLoop h 0 app of
               None \<Rightarrow> None
             | Some app \<Rightarrow> Some (None, cleanup app)))"

definition EXIT_SUCCESS :: int where
  "EXIT_SUCCESS = 0"

definition EXIT_FAILURE :: int where
  "EXIT_FAILURE = 1"

text \<open>
  \<open>main\<close> constructs the object, calls \<open>run\<close> and turns an exception into the exit status
  \<open>EXIT_FAILURE\<close>. The result is the exit status and the final object with its trace. (The two
  lines printed to the standard streams are not modelled.)
\<close>

definition main ::
  "bool \<Rightarrow> host \<Rightarrow> (int \<times> HelloTriangleApplication) option" where
  "main enableValidationLayers h =
     (case run enableValidationLayers h HelloTriangleApplication_new of
        None \<Rightarrow> None
      | Some (None, app) \<Rightarrow> Some (EXIT_SUCCESS, app)
      | Some (Some e, app) \<Rightarrow> Some (EXIT_FAILURE, app))"

section \<open>Notions used in the statements\<close>

text \<open>
  A candidate device is graphics-capable when one of its queue families has the graphics
  bit in its flags.
\<close>

definition hasGraphicsFamily :: "host \<Rightarrow> nat \<Rightarrow> bool" where
  "hasGraphicsFamily h d = (\<exists>q \<in> set (queueFamilyProperties h d). supportsGraphics q)"

text \<open>The two queries one evaluation of the suitability predicate on a candidate issues.\<close>

definition suitabilityQueries :: "nat \<Rightarrow> call list" where
  "suitabilityQueries d =
     [VkGetPhysicalDeviceQueueFamilyProperties d, VkGetPhysicalDeviceQueueFamilyProperties d]"

text \<open>
  The three resources of the life cycle, read off a trace: a creation call creates its
  resource when the host reported success (a window, when one was returned); a destroy call
  releases its resource unless it is given a null handle.
\<close>

datatype resource = Window | Instance | LogicalDevice

fun creates :: "call \<Rightarrow> resource list" where
  "creates (GlfwCreateWindow w ht title win) = (case win of None \<Rightarrow> [] | Some _ \<Rightarrow> [Window])"
| "creates (VkCreateInstance createInfo result) = (if result = VK_SUCCESS then [Instance] else [])"
| "creates (VkCreateDevice pd createInfo result) =
     (if result = VK_SUCCESS then [LogicalDevice] else [])"
| "creates _ = []"

fun releases :: "call \<Rightarrow> resource list" where
  "releases (VkDestroyDevice d) = (case d of None \<Rightarrow> [] | Some _ \<Rightarrow> [LogicalDevice])"
| "releases (VkDestroyInstance i) = (case i of None \<Rightarrow> [] | Some _ \<Rightarrow> [Instance])"
| "releases (GlfwDestroyWindow w) = (case w of None \<Rightarrow> [] | Some _ \<Rightarrow> [Window])"
| "releases _ = []"

definition created :: "call list \<Rightarrow> resource list" where
  "created t = concat (map creates t)"

definition released :: "call list \<Rightarrow> resource list" where
  "released t = concat (map releases t)"

text \<open>
  What a run did with its resources: how it ended (\<open>None\<close>: \<open>run\<close> returned, \<open>Some e\<close>: it threw
  \<open>e\<close>), the resources it created and the resources it released, each in the order of the
  calls. The outer \<open>None\<close> is a run that never ends.
\<close>

definition teardown_report ::
  "(error option \<times> HelloTriangleApplication) option
     \<Rightarrow> (error option \<times> resource list \<times> resource list) option" where
  "teardown_report r =
     (case r of
        None \<Rightarrow> None
      | Some (e, app) \<Rightarrow> Some (e, created (trace app), released (trace app)))"

subsection \<open>Example hosts\<close>

text \<open>
  A host with three physical devices 10, 11 and 12, of which only the last has a graphics
  queue family, at family index 1 (flags 6 are compute and transfer, flags 7 add graphics).
  The validation layer is installed, every creation succeeds, and the window reports a
  close request after two rounds of event polling.
\<close>

definition host_three_devices :: host where
  "host_three_devices =
     \<lparr>createdWindow = 1,
      requiredInstanceExtensions = [''VK_KHR_surface''],
      instanceLayerProperties = [\<lparr>layerName = ''VK_LAYER_KHRONOS_validation''\<rparr>],
      vkCreateInstance_result = (\<lambda>createInfo. 0),
      createdInstance = 2,
      physicalDevices = [10, 11, 12],
      queueFamilyProperties =
        (\<lambda>d. if d = 12
              then [\<lparr>queueFlags = 6, queueCount_family = 1\<rparr>,
                    \<lparr>queueFlags = 7, queueCount_family = 2\<rparr>,
                    \<lparr>queueFlags = 1, queueCount_family = 1\<rparr>]
              else [\<lparr>queueFlags = 4, queueCount_family = 1\<rparr>]),
      vkCreateDevice_result = (\<lambda>pd createInfo. 0),
      createdDevice = 3,
      deviceQueue = (\<lambda>family index. 4),
      windowShouldClose = (\<lambda>k. 2 \<le> k)\<rparr>"

text \<open>The same host with other layers installed, the validation layer not among them.\<close>

definition host_other_layers :: host where
  "host_other_layers =
     host_three_devices\<lparr>instanceLayerProperties := [\<lparr>layerName = ''Y''\<rparr>, \<lparr>layerName = ''Z''\<rparr>]\<rparr>"

text \<open>The same host with the layer's name in lower case only.\<close>

definition host_lower_case_layer :: host where
  "host_lower_case_layer =
     host_three_devices
       \<lparr>instanceLayerProperties := [\<lparr>layerName = ''vk_layer_khronos_validation''\<rparr>]\<rparr>"

text \<open>The same host with no physical device at all.\<close>

definition host_no_devices :: host where
  "host_no_devices = host_three_devices\<lparr>physicalDevices := []\<rparr>"

text \<open>The same host reporting only the two devices without a graphics queue family.\<close>

definition host_no_graphics :: host where
  "host_no_graphics = host_three_devices\<lparr>physicalDevices := [10, 11]\<rparr>"

text \<open>
  The same host whose driver rejects the device-creation request (with
  \<open>VK_ERROR_EXTENSION_NOT_PRESENT\<close>, which is \<open>-7\<close>).
\<close>

definition host_device_creation_fails :: host where
  "host_device_creation_fails =
     host_three_devices\<lparr>vkCreateDevice_result := (\<lambda>pd createInfo. - 7)\<rparr>"

section \<open>Supporting lemmas\<close>

subsection \<open>The queue-family scan\<close>

lemma supportsGraphics_simp:
  "(queueFlags q AND VK_QUEUE_GRAPHICS_BIT \<noteq> 0) = supportsGraphics q"
  by (simp add: supportsGraphics_def)

lemma findQueueFamilies_loop_none:
  "\<forall>q \<in> set qfs. \<not> supportsGraphics q \<Longrightarrow>
   findQueueFamilies_loop i qfs \<lparr>graphicsFamily = None\<rparr> = \<lparr>graphicsFamily = None\<rparr>"
  by (induction qfs arbitrary: i) (simp_all add: supportsGraphics_simp isComplete_def)

lemma findQueueFamilies_loop_first:
  "\<forall>p \<in> set pre. \<not> supportsGraphics p \<Longrightarrow> supportsGraphics q \<Longrightarrow>
   findQueueFamilies_loop i (pre @ q # post) \<lparr>graphicsFamily = None\<rparr>
     = \<lparr>graphicsFamily = Some (i + of_nat (length pre))\<rparr>"
  by (induction pre arbitrary: i) (simp_all add: supportsGraphics_simp isComplete_def add.assoc)

lemma fullScan_none:
  "\<forall>q \<in> set qfs. \<not> supportsGraphics q \<Longrightarrow> fullScan qfs = None"
  by (simp add: fullScan_def filter_empty_conv)

lemma fullScan_first:
  assumes "\<forall>p \<in> set pre. \<not> supportsGraphics p" and "supportsGraphics q"
  shows "fullScan (pre @ q # post) = Some (length pre)"
proof -
  let ?xs = "pre @ q # post"
  let ?P = "\<lambda>i. supportsGraphics (?xs ! i)"
  have split: "[0..<length ?xs] = [0..<length pre] @ length pre # [Suc (length pre)..<length ?xs]"
    by (metis add_Suc_right le_add1 length_Cons length_append upt_add_eq_append upt_conv_Cons
        zero_less_Suc less_add_same_cancel1 add_0)
  have pre: "filter ?P [0..<length pre] = []"
    using assms(1) by (auto simp: filter_empty_conv nth_append)
  show ?thesis
    unfolding fullScan_def
    by (subst split) (use assms(2) in \<open>simp add: pre del: upt_Suc\<close>)
qed

lemma findQueueFamilies_fst:
  "fst (findQueueFamilies h d app)
     = findQueueFamilies_loop 0 (queueFamilyProperties h d) \<lparr>graphicsFamily = None\<rparr>"
  by (simp add: findQueueFamilies_def Let_def)

lemma findQueueFamilies_snd:
  "snd (findQueueFamilies h d app) = app\<lparr>trace := trace app @ suitabilityQueries d\<rparr>"
  by (simp add: findQueueFamilies_def Let_def issue_def suitabilityQueries_def)

lemma findQueueFamilies_eq:
  "findQueueFamilies h d app
     = (fst (findQueueFamilies h d app), app\<lparr>trace := trace app @ suitabilityQueries d\<rparr>)"
  using findQueueFamilies_snd [of h d app] by (cases "findQueueFamilies h d app") simp

text \<open>The scan finds a family exactly when the device is graphics-capable.\<close>

lemma findQueueFamilies_complete:
  "isComplete (fst (findQueueFamilies h d app)) = hasGraphicsFamily h d"
proof (cases "\<forall>q \<in> set (queueFamilyProperties h d). \<not> supportsGraphics q")
  case True
  then show ?thesis
    by (simp add: findQueueFamilies_fst findQueueFamilies_loop_none isComplete_def
        hasGraphicsFamily_def)
next
  case False
  then obtain pre q post where
    dec: "queueFamilyProperties h d = pre @ q # post" and
    q: "supportsGraphics q" and
    pre: "\<forall>p \<in> set pre. \<not> supportsGraphics p"
    using split_list_first_prop [of "queueFamilyProperties h d" supportsGraphics] by auto
  show ?thesis
    using False findQueueFamilies_loop_first [OF pre q, of 0 post]
    by (simp add: findQueueFamilies_fst dec isComplete_def hasGraphicsFamily_def)
qed

lemma isDeviceSuitable_eq:
  "isDeviceSuitable h d app
     = (hasGraphicsFamily h d, app\<lparr>trace := trace app @ suitabilityQueries d\<rparr>)"
  using findQueueFamilies_complete [of h d app] findQueueFamilies_snd [of h d app]
  by (cases "findQueueFamilies h d app") (simp add: isDeviceSuitable_def)

subsection \<open>The device selection loop\<close>

lemma pickPhysicalDevice_loop_none:
  "\<forall>c \<in> set cs. \<not> hasGraphicsFamily h c \<Longrightarrow>
   pickPhysicalDevice_loop h cs app
     = app\<lparr>trace := trace app @ concat (map suitabilityQueries cs)\<rparr>"
  by (induction cs arbitrary: app) (simp_all add: isDeviceSuitable_eq)

lemma pickPhysicalDevice_loop_first:
  "\<forall>c \<in> set pre. \<not> hasGraphicsFamily h c \<Longrightarrow> hasGraphicsFamily h d \<Longrightarrow>
   pickPhysicalDevice_loop h (pre @ d # post) app
     = app\<lparr>physicalDevice := Some d,
           trace := trace app @ concat (map suitabilityQueries (pre @ [d]))\<rparr>"
  by (induction pre arbitrary: app) (simp_all add: isDeviceSuitable_eq)

lemma pickPhysicalDevice_first:
  assumes "\<forall>c \<in> set pre. \<not> hasGraphicsFamily h c" and "hasGraphicsFamily h d"
    and "physicalDevices h = pre @ d # post"
  shows "pickPhysicalDevice h app
           = (None,
              app\<lparr>physicalDevice := Some d,
                  trace := trace app
                    @ [VkEnumeratePhysicalDevices (instance' app),
                       VkEnumeratePhysicalDevices (instance' app)]
                    @ concat (map suitabilityQueries (pre @ [d]))\<rparr>)"
  by (simp add: pickPhysicalDevice_def Let_def assms(3) issue_def
      pickPhysicalDevice_loop_first [OF assms(1,2)])

lemma pickPhysicalDevice_empty:
  "physicalDevices h = [] \<Longrightarrow>
   pickPhysicalDevice h app
     = (Some NoDevicesFound,
        app\<lparr>trace := trace app @ [VkEnumeratePhysicalDevices (instance' app)]\<rparr>)"
  by (simp add: pickPhysicalDevice_def Let_def issue_def)

subsection \<open>The layer check\<close>

lemma strcmp_eq_0: "(strcmp a b = 0) = (a = b)"
  by (induction a b rule: strcmp.induct) auto

lemma layerFound_loop_eq:
  "layerFound_loop name available = (name \<in> layerName ` set available)"
  by (induction available) (auto simp: strcmp_eq_0)

lemma checkValidationLayerSupport_loop_eq:
  "checkValidationLayerSupport_loop requested available
     = (\<forall>name \<in> set requested. name \<in> layerName ` set available)"
  by (induction requested) (simp_all add: layerFound_loop_eq)

lemma checkValidationLayerSupport_eq:
  "checkValidationLayerSupport h app
     = (\<forall>name \<in> set validationLayers. name \<in> layerName ` set (instanceLayerProperties h),
        app\<lparr>trace := trace app
              @ [VkEnumerateInstanceLayerProperties, VkEnumerateInstanceLayerProperties]\<rparr>)"
  by (simp add: checkValidationLayerSupport_def Let_def issue_def
      checkValidationLayerSupport_loop_eq)

subsection \<open>The device-creation request\<close>

lemma createLogicalDevice_request:
  assumes pd: "physicalDevice app = Some pd"
    and family: "graphicsFamily (fst (findQueueFamilies h pd app)) = Some family"
  shows "\<exists>createInfo queueCreateInfo result.
           pQueueCreateInfos createInfo = Some [queueCreateInfo]
           \<and> queueCreateInfoCount createInfo = 1
           \<and> queueFamilyIndex queueCreateInfo = family
           \<and> queueCount queueCreateInfo = 1
           \<and> pQueuePriorities queueCreateInfo = Some [1]
           \<and> result = vkCreateDevice_result h pd createInfo
           \<and> createLogicalDevice enableValidationLayers h app
               = (if result = VK_SUCCESS
                  then (None,
                        app\<lparr>device := Some (createdDevice h),
                            graphicsQueue := Some (deviceQueue h family 0),
                            trace := trace app @ suitabilityQueries pd
                              @ [VkCreateDevice pd createInfo result,
                                 VkGetDeviceQueue (Some (createdDevice h)) family 0]\<rparr>)
                  else (Some DeviceCreationFailed,
                        app\<lparr>trace := trace app @ suitabilityQueries pd
                              @ [VkCreateDevice pd createInfo result]\<rparr>))"
proof -
  define queueCreateInfo where
    "queueCreateInfo = VkDeviceQueueCreateInfo_zero
       \<lparr>sType_queue := VK_STRUCTURE_TYPE_DEVICE_QUEUE_CREATE_INFO,
        queueFamilyIndex := family, queueCount := 1, pQueuePriorities := Some [1]\<rparr>"
  define request where
    "request = VkDeviceCreateInfo_zero
       \<lparr>sType_dev := VK_STRUCTURE_TYPE_DEVICE_CREATE_INFO,
        pQueueCreateInfos := Some [queueCreateInfo],
        queueCreateInfoCount := 1,
        pEnabledFeatures := Some [],
        enabledExtensionCount_dev := 2,
        ppEnabledExtensionNames_dev :=
          Some [VK_KHR_SWAPCHAIN_EXTENSION_NAME, ''VK_KHR_portability_subset'']\<rparr>"
  define createInfo where
    "createInfo =
       (if enableValidationLayers
        then request\<lparr>enabledLayerCount_dev := of_nat (length validationLayers),
                     ppEnabledLayerNames_dev := Some validationLayers\<rparr>
        else request\<lparr>enabledLayerCount_dev := 0\<rparr>)"
  define result where "result = vkCreateDevice_result h pd createInfo"
  have fq: "findQueueFamilies h pd app
      = (fst (findQueueFamilies h pd app), app\<lparr>trace := trace app @ suitabilityQueries pd\<rparr>)"
    by (rule findQueueFamilies_eq)
  have outcome: "createLogicalDevice enableValidationLayers h app
      = (if result = VK_SUCCESS
         then (None,
               app\<lparr>device := Some (createdDevice h),
                   graphicsQueue := Some (deviceQueue h family 0),
                   trace := trace app @ suitabilityQueries pd
                     @ [VkCreateDevice pd createInfo result,
                        VkGetDeviceQueue (Some (createdDevice h)) family 0]\<rparr>)
         else (Some DeviceCreationFailed,
               app\<lparr>trace := trace app @ suitabilityQueries pd
                     @ [VkCreateDevice pd createInfo result]\<rparr>))"
    unfolding createLogicalDevice_def pd option.case
    by (subst fq)
      (simp add: family Let_def issue_def result_def createInfo_def request_def
        queueCreateInfo_def)
  have request_fields:
    "pQueueCreateInfos createInfo = Some [queueCreateInfo]"
    "queueCreateInfoCount createInfo = 1"
    by (simp_all add: createInfo_def request_def)
  have queue_fields:
    "queueFamilyIndex queueCreateInfo = family"
    "queueCount queueCreateInfo = 1"
    "pQueuePriorities queueCreateInfo = Some [1]"
    by (simp_all add: queueCreateInfo_def)
  from outcome request_fields queue_fields result_def show ?thesis
    by blast
qed

subsection \<open>Resources created and released by each operation\<close>

lemma created_append [simp]: "created (s @ t) = created s @ created t"
  by (simp add: created_def)

lemma released_append [simp]: "released (s @ t) = released s @ released t"
  by (simp add: released_def)

lemma created_Nil [simp]: "created [] = []"
  by (simp add: created_def)

lemma released_Nil [simp]: "released [] = []"
  by (simp add: released_def)

lemma created_Cons [simp]: "created (c # t) = creates c @ created t"
  by (simp add: created_def)

lemma released_Cons [simp]: "released (c # t) = releases c @ released t"
  by (simp add: released_def)

lemma suitabilityQueries_quiet [simp]:
  "created (suitabilityQueries d) = []" "released (suitabilityQueries d) = []"
  by (simp_all add: suitabilityQueries_def)

lemma concat_suitabilityQueries_quiet [simp]:
  "created (concat (map suitabilityQueries cs)) = []"
  "released (concat (map suitabilityQueries cs)) = []"
  by (induction cs) simp_all

lemma initWindow_effect:
  "window (initWindow h app) = Some (createdWindow h)"
  "instance' (initWindow h app) = instance' app"
  "device (initWindow h app) = device app"
  "physicalDevice (initWindow h app) = physicalDevice app"
  "created (trace (initWindow h app)) = created (trace app) @ [Window]"
  "released (trace (initWindow h app)) = released (trace app)"
  by (simp_all add: initWindow_def Let_def issue_def)

lemma createInstance_effect:
  assumes "createInstance enableValidationLayers h app = (r, app')"
  shows "window app' = window app \<and> device app' = device app
         \<and> physicalDevice app' = physicalDevice app
         \<and> released (trace app') = released (trace app)
         \<and> (case r of
               None \<Rightarrow> instance' app' = Some (createdInstance h)
                        \<and> created (trace app') = created (trace app) @ [Instance]
             | Some e \<Rightarrow> created (trace app') = created (trace app)
                        \<and> (e = LayerUnavailable \<or> (\<exists>code. e = InstanceCreationFailed code)))"
  using assms
  by (auto simp: createInstance_def checkValidationLayerSupport_eq Let_def issue_def
      split: if_splits)

lemma pickPhysicalDevice_loop_effect:
  "window (pickPhysicalDevice_loop h cs app) = window app
   \<and> instance' (pickPhysicalDevice_loop h cs app) = instance' app
   \<and> device (pickPhysicalDevice_loop h cs app) = device app
   \<and> created (trace (pickPhysicalDevice_loop h cs app)) = created (trace app)
   \<and> released (trace (pickPhysicalDevice_loop h cs app)) = released (trace app)
   \<and> (physicalDevice (pickPhysicalDevice_loop h cs app) = physicalDevice app
       \<or> (\<exists>d. physicalDevice (pickPhysicalDevice_loop h cs app) = Some d
              \<and> hasGraphicsFamily h d))"
proof (induction cs arbitrary: app)
  case Nil
  show ?case by simp
next
  case (Cons c cs)
  from Cons.IH [of "app\<lparr>trace := trace app @ suitabilityQueries c\<rparr>"]
  show ?case by (auto simp: isDeviceSuitable_eq)
qed

lemma pickPhysicalDevice_effect:
  assumes "pickPhysicalDevice h app = (r, app')"
  shows "window app' = window app \<and> instance' app' = instance' app
         \<and> device app' = device app
         \<and> created (trace app') = created (trace app)
         \<and> released (trace app') = released (trace app)
         \<and> (case r of
               None \<Rightarrow> physicalDevice app' \<noteq> None
                        \<and> (physicalDevice app = None
                             \<longrightarrow> (\<exists>d. physicalDevice app' = Some d \<and> hasGraphicsFamily h d))
             | Some e \<Rightarrow> e = NoDevicesFound \<or> e = NoSuitableDevice)"
proof -
  let ?app1 = "issue (VkEnumeratePhysicalDevices (instance' app)) app"
  let ?app2 = "issue (VkEnumeratePhysicalDevices (instance' ?app1)) ?app1"
  note loop = pickPhysicalDevice_loop_effect [of h "physicalDevices h" ?app2]
  show ?thesis
    using assms loop
    by (auto simp: pickPhysicalDevice_def Let_def issue_def split: if_splits)
qed

lemma createLogicalDevice_effect:
  assumes "createLogicalDevice enableValidationLayers h app = (r, app')"
  shows "window app' = window app \<and> instance' app' = instance' app
         \<and> released (trace app') = released (trace app)
         \<and> (case r of
               None \<Rightarrow> device app' = Some (createdDevice h)
                        \<and> created (trace app') = created (trace app) @ [LogicalDevice]
             | Some e \<Rightarrow> created (trace app') = created (trace app)
                        \<and> (e = DeviceCreationFailed
                            \<or> e = NullPhysicalDevice \<and> physicalDevice app = None
                            \<or> e = BadOptionalAccess
                               \<and> (\<exists>d. physicalDevice app = Some d \<and> \<not> hasGraphicsFamily h d)))"
proof (cases "physicalDevice app")
  case None
  with assms show ?thesis by (auto simp: createLogicalDevice_def)
next
  case (Some pd)
  show ?thesis
  proof (cases "graphicsFamily (fst (findQueueFamilies h pd app))")
    case None
    then have "\<not> hasGraphicsFamily h pd"
      using findQueueFamilies_complete [of h pd app] by (simp add: isComplete_def)
    moreover have "createLogicalDevice enableValidationLayers h app
        = (Some BadOptionalAccess, app\<lparr>trace := trace app @ suitabilityQueries pd\<rparr>)"
      unfolding createLogicalDevice_def Some option.case
      by (subst findQueueFamilies_eq) (simp add: None)
    ultimately show ?thesis using assms Some by auto
  next
    case family: (Some family)
    from createLogicalDevice_request [OF Some family, of enableValidationLayers]
    show ?thesis using assms by (auto split: if_splits)
  qed
qed


subsection \<open>The main loop\<close>

lemma mainLoop_closes:
  "windowShouldClose h (k + n) \<Longrightarrow> \<forall>j < n. \<not> windowShouldClose h (k + j) \<Longrightarrow>
   mainLoop h k app
     = Some (app\<lparr>trace := trace app
               @ concat (replicate n [GlfwWindowShouldClose (window app), GlfwPollEvents])
               @ [GlfwWindowShouldClose (window app)]\<rparr>)"
proof (induction n arbitrary: k app)
  case 0
  then show ?case
    by (subst mainLoop.simps) (simp add: Let_def issue_def)
next
  case (Suc n)
  have open_now: "\<not> windowShouldClose h k"
    using Suc.prems(2) [rule_format, of 0] by simp
  have later: "windowShouldClose h (Suc k + n)"
    using Suc.prems(1) by simp
  have before: "\<forall>j < n. \<not> windowShouldClose h (Suc k + j)"
    using Suc.prems(2) [rule_format, of "Suc j" for j] by simp
  show ?case
    by (subst mainLoop.simps)
      (simp add: Let_def issue_def open_now Suc.IH [OF later before])
qed

lemma mainLoop_Some_closes:
  "mainLoop h k app = Some app' \<Longrightarrow> \<exists>n. windowShouldClose h (k + n)"
proof (induction rule: mainLoop.raw_induct [rotated, consumes 1])
  case (1 mainLoop' h k app app')
  show ?case
  proof (cases "windowShouldClose h k")
    case True
    then have "windowShouldClose h (k + 0)" by simp
    then show ?thesis by blast
  next
    case False
    with 1(2) have "mainLoop' h (Suc k)
        (issue GlfwPollEvents (issue (GlfwWindowShouldClose (window app)) app)) = Some app'"
      by (simp add: Let_def)
    from 1(1) [OF this] obtain n where "windowShouldClose h (Suc k + n)" by blast
    then have "windowShouldClose h (k + Suc n)" by simp
    then show ?thesis by blast
  qed
qed

lemma mainLoop_result:
  assumes "\<exists>n. windowShouldClose h (k + n)"
  shows "\<exists>n. mainLoop h k app
     = Some (app\<lparr>trace := trace app
               @ concat (replicate n [GlfwWindowShouldClose (window app), GlfwPollEvents])
               @ [GlfwWindowShouldClose (window app)]\<rparr>)"
proof -
  define n where "n = (LEAST n. windowShouldClose h (k + n))"
  have "windowShouldClose h (k + n)"
    unfolding n_def using assms by (rule LeastI_ex)
  moreover have "\<forall>j < n. \<not> windowShouldClose h (k + j)"
    unfolding n_def using not_less_Least by blast
  ultimately show ?thesis
    using mainLoop_closes by blast
qed

lemma polling_quiet [simp]:
  "created (concat (replicate n [GlfwWindowShouldClose w, GlfwPollEvents])) = []"
  "released (concat (replicate n [GlfwWindowShouldClose w, GlfwPollEvents])) = []"
  by (induction n) simp_all

lemma mainLoop_effect:
  assumes "mainLoop h k app = Some app'"
  shows "window app' = window app \<and> instance' app' = instance' app
         \<and> device app' = device app
         \<and> created (trace app') = created (trace app)
         \<and> released (trace app') = released (trace app)"
proof -
  from mainLoop_Some_closes [OF assms] mainLoop_result [of h k app] assms
  obtain n where "app' = app\<lparr>trace := trace app
               @ concat (replicate n [GlfwWindowShouldClose (window app), GlfwPollEvents])
               @ [GlfwWindowShouldClose (window app)]\<rparr>"
    by auto
  then show ?thesis by simp
qed

lemma mainLoop_None:
  "(mainLoop h k app = None) = (\<forall>n. \<not> windowShouldClose h (k + n))"
  using mainLoop_Some_closes [of h k app] mainLoop_result [of h k app]
  by (cases "mainLoop h k app") auto

lemma cleanup_effect:
  "created (trace (cleanup app)) = created (trace app)"
  "released (trace (cleanup app))
     = released (trace app)
       @ releases (VkDestroyDevice (device app))
       @ releases (VkDestroyInstance (instance' app))
       @ releases (GlfwDestroyWindow (window app))"
  by (simp_all add: cleanup_def Let_def issue_def)


subsection \<open>Set-up as a whole\<close>

lemma initVulkan_effect:
  assumes run: "initVulkan enableValidationLayers h app = (r, app')"
    and fresh: "physicalDevice app = None"
  shows "window app' = window app \<and> released (trace app') = released (trace app)
         \<and> (case r of
               None \<Rightarrow> instance' app' = Some (createdInstance h)
                        \<and> device app' = Some (createdDevice h)
                        \<and> created (trace app') = created (trace app) @ [Instance, LogicalDevice]
             | Some e \<Rightarrow>
                 (case e of
                    LayerUnavailable \<Rightarrow> created (trace app') = created (trace app)
                  | InstanceCreationFailed code \<Rightarrow> created (trace app') = created (trace app)
                  | NoDevicesFound \<Rightarrow> created (trace app') = created (trace app) @ [Instance]
                  | NoSuitableDevice \<Rightarrow> created (trace app') = created (trace app) @ [Instance]
                  | DeviceCreationFailed \<Rightarrow>
                      created (trace app') = created (trace app) @ [Instance]
                  | BadOptionalAccess \<Rightarrow> False
                  | NullPhysicalDevice \<Rightarrow> False))"
proof -
  obtain r1 app1 where ci: "createInstance enableValidationLayers h app = (r1, app1)"
    by (cases "createInstance enableValidationLayers h app")
  note e1 = createInstance_effect [OF ci]
  show ?thesis
  proof (cases r1)
    case (Some e)
    with run ci have "r = Some e" "app' = app1" by (simp_all add: initVulkan_def)
    with e1 Some show ?thesis by auto
  next
    case None
    obtain r2 app2 where pk: "pickPhysicalDevice h app1 = (r2, app2)"
      by (cases "pickPhysicalDevice h app1")
    note e2 = pickPhysicalDevice_effect [OF pk]
    show ?thesis
    proof (cases r2)
      case (Some e)
      with run ci pk None have "r = Some e" "app' = app2" by (simp_all add: initVulkan_def)
      with e1 e2 None Some show ?thesis by auto
    next
      case picked: None
      from run ci pk None picked
      have cl: "createLogicalDevice enableValidationLayers h app2 = (r, app')"
        by (simp add: initVulkan_def)
      note e3 = createLogicalDevice_effect [OF cl]
      from e1 e2 fresh picked obtain d where
        d: "physicalDevice app2 = Some d" "hasGraphicsFamily h d"
        by auto
      show ?thesis
        using e1 e2 e3 None picked d by (cases r) auto
    qed
  qed
qed

text \<open>
  \<open>run\<close> reaches \<open>pickPhysicalDevice\<close> with the \<open>physicalDevice\<close> member still null.
\<close>

lemma pickPhysicalDevice_entry_null:
  assumes "createInstance enableValidationLayers h (initWindow h HelloTriangleApplication_new)
             = (r, app)"
  shows "physicalDevice app = VK_NULL_HANDLE"
  using createInstance_effect [OF assms]
  by (simp add: initWindow_effect HelloTriangleApplication_new_def)

section \<open>The claims\<close>

text \<open>
  C1. With diagnostics disabled, \<open>checkValidationLayerSupport\<close> is never invoked, and the
  instance-creation request should carry no layer list. The theorem evaluates
  \<open>createInstance\<close> in a release build on any host. The calls it issues are exactly the
  extension query and \<open>vkCreateInstance\<close>: no layer enumeration, so the check is not
  invoked. The request, however, has \<open>enabledLayerCount = 1\<close> and names the validation layer:
  lines 255 and 256 overwrite what the \<open>else\<close> branch of line 242 set.
\<close>

theorem createInstance_release_build_request:
  "\<exists>createInfo result.
     trace (snd (createInstance False h app))
       = trace app @ [GlfwGetRequiredInstanceExtensions, VkCreateInstance createInfo result]
     \<and> enabledLayerCount createInfo = 1
     \<and> ppEnabledLayerNames createInfo = Some [''VK_LAYER_KHRONOS_validation'']"
  by (simp add: createInstance_def Let_def issue_def validationLayers_def)

text \<open>
  C2, as amended. A run that never ends is one whose window never reports a close request.
  A run that returns from \<open>run\<close> has created window, instance and logical device, in this
  order, and has released them in exactly the reverse order. A run whose set-up throws has
  released nothing: for a failed logical-device creation the window and the instance were
  created and are not released. The exit status is \<open>EXIT_FAILURE\<close> exactly when \<open>run\<close> threw.
  The two errors \<open>BadOptionalAccess\<close> and \<open>NullPhysicalDevice\<close> never leave \<open>run\<close>.
\<close>

theorem run_teardown_order:
  "(case teardown_report (run enableValidationLayers h HelloTriangleApplication_new) of
      None \<Rightarrow> (\<forall>k. \<not> windowShouldClose h k)
    | Some (None, c, r) \<Rightarrow>
        c = [Window, Instance, LogicalDevice] \<and> r = [LogicalDevice, Instance, Window]
    | Some (Some e, c, r) \<Rightarrow>
        r = []
        \<and> (case e of
              LayerUnavailable \<Rightarrow> c = [Window]
            | InstanceCreationFailed code \<Rightarrow> c = [Window]
            | NoDevicesFound \<Rightarrow> c = [Window, Instance]
            | NoSuitableDevice \<Rightarrow> c = [Window, Instance]
            | DeviceCreationFailed \<Rightarrow> c = [Window, Instance]
            | BadOptionalAccess \<Rightarrow> False
            | NullPhysicalDevice \<Rightarrow> False))
   \<and> map_option fst (main enableValidationLayers h)
       = (case run enableValidationLayers h HelloTriangleApplication_new of
            None \<Rightarrow> None
          | Some (None, app) \<Rightarrow> Some EXIT_SUCCESS
          | Some (Some e, app) \<Rightarrow> Some EXIT_FAILURE)"
proof
  let ?app0 = "initWindow h HelloTriangleApplication_new"
  let ?run = "run enableValidationLayers h HelloTriangleApplication_new"
  obtain r1 app1 where iv: "initVulkan enableValidationLayers h ?app0 = (r1, app1)"
    by (cases "initVulkan enableValidationLayers h ?app0")
  have fresh: "physicalDevice ?app0 = None"
    by (simp add: initWindow_effect HelloTriangleApplication_new_def)
  have start: "created (trace ?app0) = [Window]" "released (trace ?app0) = []"
    "window ?app0 = Some (createdWindow h)"
    by (simp_all add: initWindow_effect HelloTriangleApplication_new_def)
  note e1 = initVulkan_effect [OF iv fresh]
  show "case teardown_report ?run of
      None \<Rightarrow> (\<forall>k. \<not> windowShouldClose h k)
    | Some (None, c, r) \<Rightarrow>
        c = [Window, Instance, LogicalDevice] \<and> r = [LogicalDevice, Instance, Window]
    | Some (Some e, c, r) \<Rightarrow>
        r = []
        \<and> (case e of
              LayerUnavailable \<Rightarrow> c = [Window]
            | InstanceCreationFailed code \<Rightarrow> c = [Window]
            | NoDevicesFound \<Rightarrow> c = [Window, Instance]
            | NoSuitableDevice \<Rightarrow> c = [Window, Instance]
            | DeviceCreationFailed \<Rightarrow> c = [Window, Instance]
            | BadOptionalAccess \<Rightarrow> False
            | NullPhysicalDevice \<Rightarrow> False)"
  proof (cases r1)
    case (Some e)
    then have "?run = Some (Some e, app1)"
      by (simp add: run_def iv)
    then show ?thesis
      using e1 Some start by (cases e) (simp_all add: teardown_report_def)
  next
    case None
    show ?thesis
    proof (cases "mainLoop h 0 app1")
      case stuck: None
      then have "?run = None"
        by (simp add: run_def iv None)
      moreover have "\<forall>k. \<not> windowShouldClose h k"
        using stuck mainLoop_None [of h 0 app1] by simp
      ultimately show ?thesis by (simp add: teardown_report_def)
    next
      case (Some app2)
      then have "?run = Some (None, cleanup app2)"
        by (simp add: run_def iv None)
      then show ?thesis
        using e1 None start mainLoop_effect [OF Some]
        by (simp add: teardown_report_def cleanup_effect)
    qed
  qed
  show "map_option fst (main enableValidationLayers h)
       = (case ?run of
            None \<Rightarrow> None
          | Some (None, app) \<Rightarrow> Some EXIT_SUCCESS
          | Some (Some e, app) \<Rightarrow> Some EXIT_FAILURE)"
    by (simp add: main_def split: option.splits prod.splits)
qed

text \<open>
  Witness for C2: on the host with three devices the debug build runs to the end and
  releases device, instance and window in this order; on the host whose driver rejects the
  device-creation request the run ends in \<open>DeviceCreationFailed\<close> with nothing released.
\<close>

theorem run_teardown_order_witness:
  "teardown_report (run True host_three_devices HelloTriangleApplication_new)
     = Some (None, [Window, Instance, LogicalDevice], [LogicalDevice, Instance, Window])
   \<and> map_option fst (main True host_three_devices) = Some EXIT_SUCCESS
   \<and> teardown_report (run True host_device_creation_fails HelloTriangleApplication_new)
       = Some (Some DeviceCreationFailed, [Window, Instance], [])
   \<and> map_option fst (main True host_device_creation_fails) = Some EXIT_FAILURE"
proof -
  have ok: "teardown_report (run True host_three_devices HelloTriangleApplication_new)
     = Some (None, [Window, Instance, LogicalDevice], [LogicalDevice, Instance, Window])"
    by code_simp
  have failed: "teardown_report (run True host_device_creation_fails HelloTriangleApplication_new)
       = Some (Some DeviceCreationFailed, [Window, Instance], [])"
    by code_simp
  from ok run_teardown_order [where enableValidationLayers = True and h = host_three_devices]
  have "map_option fst (main True host_three_devices) = Some EXIT_SUCCESS"
    by (auto simp: teardown_report_def split: option.splits prod.splits)
  moreover from failed run_teardown_order [where enableValidationLayers = True and h = host_device_creation_fails]
  have "map_option fst (main True host_device_creation_fails) = Some EXIT_FAILURE"
    by (auto simp: teardown_report_def split: option.splits prod.splits)
  ultimately show ?thesis using ok failed by simp
qed

text \<open>
  Counterexample to C2 as stated: in a release build on the host whose driver rejects the
  device-creation request, the window and the instance have been created, \<open>run\<close> ends in
  \<open>DeviceCreationFailed\<close>, no resource has been released, and the process exits with
  \<open>EXIT_FAILURE\<close>.
\<close>

theorem run_device_creation_failure_releases_nothing:
  "teardown_report (run False host_device_creation_fails HelloTriangleApplication_new)
     = Some (Some DeviceCreationFailed, [Window, Instance], [])
   \<and> map_option fst (main False host_device_creation_fails) = Some EXIT_FAILURE"
  by code_simp

text \<open>
  C3. When some enumerated candidate is graphics-capable, the device list splits into the
  candidates before the first graphics-capable one, that candidate \<open>d\<close>, and the rest;
  \<open>pickPhysicalDevice\<close> returns normally with \<open>physicalDevice = d\<close>, and after the two
  enumeration calls it has queried exactly the candidates up to and including \<open>d\<close>, in
  order: the predicate is evaluated on no candidate after \<open>d\<close>.
\<close>

theorem pickPhysicalDevice_first_match:
  assumes "\<exists>c \<in> set (physicalDevices h). hasGraphicsFamily h c"
  shows "\<exists>pre d post.
           physicalDevices h = pre @ d # post
           \<and> (\<forall>c \<in> set pre. \<not> hasGraphicsFamily h c)
           \<and> hasGraphicsFamily h d
           \<and> pickPhysicalDevice h app
               = (None,
                  app\<lparr>physicalDevice := Some d,
                      trace := trace app
                        @ [VkEnumeratePhysicalDevices (instance' app),
                           VkEnumeratePhysicalDevices (instance' app)]
                        @ concat (map suitabilityQueries (pre @ [d]))\<rparr>)"
proof -
  from assms obtain pre d post where
    dec: "physicalDevices h = pre @ d # post" and
    d: "hasGraphicsFamily h d" and
    pre: "\<forall>c \<in> set pre. \<not> hasGraphicsFamily h c"
    using split_list_first_prop [of "physicalDevices h" "hasGraphicsFamily h"] by auto
  from pickPhysicalDevice_first [OF pre d dec, of app] dec d pre
  show ?thesis by blast
qed

text \<open>
  Witness for C3: of the three devices 10, 11 and 12 only 12 is graphics-capable; it is
  selected after the predicate has been evaluated on 10, 11 and 12.
\<close>

theorem pickPhysicalDevice_first_match_witness:
  "hasGraphicsFamily host_three_devices 12
   \<and> pickPhysicalDevice host_three_devices HelloTriangleApplication_new
       = (None,
          HelloTriangleApplication_new
            \<lparr>physicalDevice := Some 12,
             trace := [VkEnumeratePhysicalDevices None, VkEnumeratePhysicalDevices None]
               @ suitabilityQueries 10 @ suitabilityQueries 11 @ suitabilityQueries 12\<rparr>)"
proof -
  have g: "\<not> hasGraphicsFamily host_three_devices 10"
    "\<not> hasGraphicsFamily host_three_devices 11"
    "hasGraphicsFamily host_three_devices 12"
    by (simp_all add: hasGraphicsFamily_def host_three_devices_def supportsGraphics_def
        VK_QUEUE_GRAPHICS_BIT_def)
  have devs: "physicalDevices host_three_devices = [10, 11, 12]"
    by (simp add: host_three_devices_def)
  have "\<exists>c \<in> set (physicalDevices host_three_devices). hasGraphicsFamily host_three_devices c"
    using g devs by simp
  from pickPhysicalDevice_first_match [OF this, of HelloTriangleApplication_new]
  obtain pre d post where
    dec: "[10, 11, 12] = pre @ d # post" and
    pre: "\<forall>c \<in> set pre. \<not> hasGraphicsFamily host_three_devices c" and
    d: "hasGraphicsFamily host_three_devices d" and
    res: "pickPhysicalDevice host_three_devices HelloTriangleApplication_new
       = (None,
          HelloTriangleApplication_new
            \<lparr>physicalDevice := Some d,
             trace := trace HelloTriangleApplication_new
               @ [VkEnumeratePhysicalDevices (instance' HelloTriangleApplication_new),
                  VkEnumeratePhysicalDevices (instance' HelloTriangleApplication_new)]
               @ concat (map suitabilityQueries (pre @ [d]))\<rparr>)"
    unfolding devs by blast
  have "d \<in> set [10, 11, 12]"
    by (subst dec) simp
  with d g have d12: "d = 12" by auto
  have "pre = [10, 11]"
    using dec unfolding d12 by (auto simp: Cons_eq_append_conv)
  with res d12 g show ?thesis
    by (simp add: HelloTriangleApplication_new_def)
qed

text \<open>
  C4. For a device with fewer than \<open>2^31\<close> queue families (so that the \<open>int\<close> counter of the
  loop does not overflow): when \<open>findQueueFamilies\<close> returns no graphics index, no family has
  the graphics bit; when it returns the index \<open>g\<close>, family \<open>g\<close> has the graphics bit and no
  family of a lower index has it. The result of the early-exit loop equals that of the full
  scan.
\<close>

theorem findQueueFamilies_lowest_graphics_index:
  assumes len: "length (queueFamilyProperties h d) < 2 ^ 31"
  shows "(case graphicsFamily (fst (findQueueFamilies h d app)) of
            None \<Rightarrow> (\<forall>q \<in> set (queueFamilyProperties h d). \<not> supportsGraphics q)
          | Some g \<Rightarrow>
              unat g < length (queueFamilyProperties h d)
              \<and> supportsGraphics (queueFamilyProperties h d ! unat g)
              \<and> (\<forall>j < unat g. \<not> supportsGraphics (queueFamilyProperties h d ! j)))
         \<and> map_option unat (graphicsFamily (fst (findQueueFamilies h d app)))
             = fullScan (queueFamilyProperties h d)"
proof (cases "\<forall>q \<in> set (queueFamilyProperties h d). \<not> supportsGraphics q")
  case True
  then show ?thesis
    by (simp add: findQueueFamilies_fst findQueueFamilies_loop_none fullScan_none)
next
  case False
  then obtain pre q post where
    dec: "queueFamilyProperties h d = pre @ q # post" and
    q: "supportsGraphics q" and
    pre: "\<forall>p \<in> set pre. \<not> supportsGraphics p"
    using split_list_first_prop [of "queueFamilyProperties h d" supportsGraphics] by auto
  have "length pre < 2 ^ 32"
    using len dec by simp
  then have u: "unat (word_of_nat (length pre) :: uint32_t) = length pre"
    by (simp add: unat_of_nat)
  have res: "fst (findQueueFamilies h d app) = \<lparr>graphicsFamily = Some (word_of_nat (length pre))\<rparr>"
    using findQueueFamilies_loop_first [OF pre q, of 0 post]
    by (simp add: findQueueFamilies_fst dec)
  have "\<forall>j < length pre. \<not> supportsGraphics ((pre @ q # post) ! j)"
    using pre by (simp add: nth_append)
  then show ?thesis
    using q by (simp add: res u dec fullScan_first [OF pre q])
qed

text \<open>
  Witness for C4: device 12 has three queue families with flags 6, 7 and 1; the families
  at index 1 and 2 have the graphics bit, and the index returned is 1. Device 10 has no
  graphics family, and no index is returned.
\<close>

theorem findQueueFamilies_lowest_graphics_index_witness:
  "length (queueFamilyProperties host_three_devices 12) < 2 ^ 31
   \<and> graphicsFamily (fst (findQueueFamilies host_three_devices 12 HelloTriangleApplication_new))
       = Some 1
   \<and> fullScan (queueFamilyProperties host_three_devices 12) = Some 1
   \<and> length (queueFamilyProperties host_three_devices 10) < 2 ^ 31
   \<and> graphicsFamily (fst (findQueueFamilies host_three_devices 10 HelloTriangleApplication_new))
       = None
   \<and> fullScan (queueFamilyProperties host_three_devices 10) = None"
proof -
  have l12: "length (queueFamilyProperties host_three_devices 12) < 2 ^ 31"
    and l10: "length (queueFamilyProperties host_three_devices 10) < 2 ^ 31"
    by (simp_all add: host_three_devices_def)
  have f12: "fullScan (queueFamilyProperties host_three_devices 12) = Some 1"
    and f10: "fullScan (queueFamilyProperties host_three_devices 10) = None"
    by (simp_all add: fullScan_def host_three_devices_def supportsGraphics_def
        VK_QUEUE_GRAPHICS_BIT_def)
  from findQueueFamilies_lowest_graphics_index [OF l12, of HelloTriangleApplication_new] f12
  have "graphicsFamily (fst (findQueueFamilies host_three_devices 12 HelloTriangleApplication_new))
       = Some 1"
    by (auto simp: word_unat_eq_iff)
  moreover
  from findQueueFamilies_lowest_graphics_index [OF l10, of HelloTriangleApplication_new] f10
  have "graphicsFamily (fst (findQueueFamilies host_three_devices 10 HelloTriangleApplication_new))
       = None"
    by auto
  ultimately show ?thesis using l12 l10 f12 f10 by simp
qed

text \<open>
  C5. In a debug build, when some requested layer is absent from the layers the host
  enumerates, \<open>createInstance\<close> throws \<open>LayerUnavailable\<close>. The only calls it has issued are
  the two layer enumerations of the check: no extension query, no \<open>vkCreateInstance\<close>. No
  member of the object has changed, so no instance handle is produced.
\<close>

theorem createInstance_layer_unavailable:
  assumes "\<exists>name \<in> set validationLayers. name \<notin> layerName ` set (instanceLayerProperties h)"
  shows "createInstance True h app
           = (Some LayerUnavailable,
              app\<lparr>trace := trace app
                    @ [VkEnumerateInstanceLayerProperties, VkEnumerateInstanceLayerProperties]\<rparr>)"
  using assms by (simp add: createInstance_def checkValidationLayerSupport_eq)

text \<open>
  Witness for C5: the host enumerates the layers \<open>Y\<close> and \<open>Z\<close> only; the instance member is
  still null after the failed call.
\<close>

theorem createInstance_layer_unavailable_witness:
  "''VK_LAYER_KHRONOS_validation'' \<in> set validationLayers
   \<and> ''VK_LAYER_KHRONOS_validation'' \<notin> layerName ` set (instanceLayerProperties host_other_layers)
   \<and> fst (createInstance True host_other_layers HelloTriangleApplication_new)
       = Some LayerUnavailable
   \<and> instance' (snd (createInstance True host_other_layers HelloTriangleApplication_new)) = None
   \<and> trace (snd (createInstance True host_other_layers HelloTriangleApplication_new))
       = [VkEnumerateInstanceLayerProperties, VkEnumerateInstanceLayerProperties]"
proof -
  have absent:
    "''VK_LAYER_KHRONOS_validation'' \<in> set validationLayers"
    "''VK_LAYER_KHRONOS_validation'' \<notin> layerName ` set (instanceLayerProperties host_other_layers)"
    by (simp_all add: validationLayers_def host_other_layers_def host_three_devices_def)
  then have "\<exists>name \<in> set validationLayers.
      name \<notin> layerName ` set (instanceLayerProperties host_other_layers)"
    by blast
  from createInstance_layer_unavailable [OF this, of HelloTriangleApplication_new] absent
  show ?thesis
    by (simp add: HelloTriangleApplication_new_def)
qed

text \<open>
  C6. When the enumeration returns no device, \<open>pickPhysicalDevice\<close> throws
  \<open>NoDevicesFound\<close> after the single enumeration call that returned the count: the
  suitability predicate has been evaluated on no candidate.
\<close>

theorem pickPhysicalDevice_no_devices:
  assumes "physicalDevices h = []"
  shows "pickPhysicalDevice h app
           = (Some NoDevicesFound,
              app\<lparr>trace := trace app @ [VkEnumeratePhysicalDevices (instance' app)]\<rparr>)"
  using assms by (rule pickPhysicalDevice_empty)

text \<open>Witness for C6: the host without devices.\<close>

theorem pickPhysicalDevice_no_devices_witness:
  "physicalDevices host_no_devices = []
   \<and> pickPhysicalDevice host_no_devices HelloTriangleApplication_new
       = (Some NoDevicesFound,
          HelloTriangleApplication_new\<lparr>trace := [VkEnumeratePhysicalDevices None]\<rparr>)"
proof -
  have empty: "physicalDevices host_no_devices = []"
    by (simp add: host_no_devices_def)
  from pickPhysicalDevice_no_devices [OF empty, of HelloTriangleApplication_new] empty
  show ?thesis
    by (simp add: HelloTriangleApplication_new_def)
qed

text \<open>
  C7. Called with a null \<open>physicalDevice\<close> member, as it is on the freshly constructed
  object, \<open>pickPhysicalDevice\<close> throws \<open>NoSuitableDevice\<close> if and only if the device list is
  not empty and no enumerated candidate is graphics-capable.
\<close>

theorem pickPhysicalDevice_no_suitable_device:
  assumes "physicalDevice app = VK_NULL_HANDLE"
  shows "(fst (pickPhysicalDevice h app) = Some NoSuitableDevice)
           = (physicalDevices h \<noteq> []
              \<and> (\<forall>c \<in> set (physicalDevices h). \<not> hasGraphicsFamily h c))"
proof (cases "physicalDevices h = []")
  case True
  then show ?thesis by (simp add: pickPhysicalDevice_empty)
next
  case ne: False
  show ?thesis
  proof (cases "\<forall>c \<in> set (physicalDevices h). \<not> hasGraphicsFamily h c")
    case True
    then show ?thesis
      using ne assms
      by (simp add: pickPhysicalDevice_def Let_def issue_def pickPhysicalDevice_loop_none)
  next
    case False
    then obtain pre d post where
      dec: "physicalDevices h = pre @ d # post" and
      d: "hasGraphicsFamily h d" and
      pre: "\<forall>c \<in> set pre. \<not> hasGraphicsFamily h c"
      using split_list_first_prop [of "physicalDevices h" "hasGraphicsFamily h"] by auto
    have "fst (pickPhysicalDevice h app) = None"
      by (simp add: pickPhysicalDevice_first [OF pre d dec])
    with False show ?thesis by auto
  qed
qed

text \<open>
  Witness for C7: the host reports the devices 10 and 11, neither graphics-capable, and
  the call on the fresh object throws \<open>NoSuitableDevice\<close>; on the host with device 12 the
  call does not throw it.
\<close>

theorem pickPhysicalDevice_no_suitable_device_witness:
  "physicalDevice HelloTriangleApplication_new = VK_NULL_HANDLE
   \<and> physicalDevices host_no_graphics = [10, 11]
   \<and> \<not> hasGraphicsFamily host_no_graphics 10
   \<and> \<not> hasGraphicsFamily host_no_graphics 11
   \<and> fst (pickPhysicalDevice host_no_graphics HelloTriangleApplication_new)
       = Some NoSuitableDevice
   \<and> hasGraphicsFamily host_three_devices 12
   \<and> fst (pickPhysicalDevice host_three_devices HelloTriangleApplication_new)
       \<noteq> Some NoSuitableDevice"
proof -
  have fresh: "physicalDevice HelloTriangleApplication_new = VK_NULL_HANDLE"
    by (simp add: HelloTriangleApplication_new_def)
  have devs: "physicalDevices host_no_graphics = [10, 11]"
    "physicalDevices host_three_devices = [10, 11, 12]"
    by (simp_all add: host_no_graphics_def host_three_devices_def)
  have g: "\<not> hasGraphicsFamily host_no_graphics 10" "\<not> hasGraphicsFamily host_no_graphics 11"
    "hasGraphicsFamily host_three_devices 12"
    by (simp_all add: hasGraphicsFamily_def host_no_graphics_def host_three_devices_def
        supportsGraphics_def VK_QUEUE_GRAPHICS_BIT_def)
  from pickPhysicalDevice_no_suitable_device [OF fresh, of host_no_graphics] devs g
  have "fst (pickPhysicalDevice host_no_graphics HelloTriangleApplication_new)
       = Some NoSuitableDevice"
    by simp
  moreover
  from pickPhysicalDevice_no_suitable_device [OF fresh, of host_three_devices] devs g
  have "fst (pickPhysicalDevice host_three_devices HelloTriangleApplication_new)
       \<noteq> Some NoSuitableDevice"
    by simp
  ultimately show ?thesis using fresh devs g by simp
qed

text \<open>
  C8. The loop of \<open>checkValidationLayerSupport\<close> answers true if and only if every
  requested name is the name of an available layer, names being compared byte by byte
  (\<open>strcmp\<close>). \<open>checkValidationLayerSupport\<close> runs it on the requested layers of the program
  and the layers the host enumerates; it changes no member of the object, and issues the
  two enumeration calls only.
\<close>

theorem checkValidationLayerSupport_iff_all_present:
  "checkValidationLayerSupport_loop requested available
     = (\<forall>name \<in> set requested. name \<in> layerName ` set available)
   \<and> fst (checkValidationLayerSupport h app)
       = (\<forall>name \<in> set validationLayers. name \<in> layerName ` set (instanceLayerProperties h))
   \<and> snd (checkValidationLayerSupport h app)
       = app\<lparr>trace := trace app
               @ [VkEnumerateInstanceLayerProperties, VkEnumerateInstanceLayerProperties]\<rparr>"
  by (simp add: checkValidationLayerSupport_eq checkValidationLayerSupport_loop_eq)

text \<open>
  Witness for C8: the check succeeds where the layer is installed, and fails where the
  host has the layers \<open>Y\<close> and \<open>Z\<close> only, or the layer's name in lower case only.
\<close>

theorem checkValidationLayerSupport_iff_all_present_witness:
  "fst (checkValidationLayerSupport host_three_devices HelloTriangleApplication_new)
   \<and> \<not> fst (checkValidationLayerSupport host_other_layers HelloTriangleApplication_new)
   \<and> \<not> fst (checkValidationLayerSupport host_lower_case_layer HelloTriangleApplication_new)
   \<and> checkValidationLayerSupport_loop [''X''] [\<lparr>layerName = ''Y''\<rparr>, \<lparr>layerName = ''Z''\<rparr>] = False
   \<and> checkValidationLayerSupport_loop [''X'', ''Z'']
        [\<lparr>layerName = ''Z''\<rparr>, \<lparr>layerName = ''Y''\<rparr>, \<lparr>layerName = ''X''\<rparr>] = True"
  using
    checkValidationLayerSupport_iff_all_present
      [of "[''X'']" "[\<lparr>layerName = ''Y''\<rparr>, \<lparr>layerName = ''Z''\<rparr>]"
        host_three_devices HelloTriangleApplication_new]
    checkValidationLayerSupport_iff_all_present
      [of "[''X'', ''Z'']" "[\<lparr>layerName = ''Z''\<rparr>, \<lparr>layerName = ''Y''\<rparr>, \<lparr>layerName = ''X''\<rparr>]"
        host_other_layers HelloTriangleApplication_new]
    checkValidationLayerSupport_iff_all_present
      [of "[]" "[]" host_lower_case_layer HelloTriangleApplication_new]
  by (simp add: validationLayers_def host_three_devices_def host_other_layers_def
      host_lower_case_layer_def)

text \<open>
  C9. Let the selected physical device be \<open>pd\<close> and let the queue-family scan of \<open>pd\<close> give
  the graphics family \<open>family\<close>. The request \<open>createLogicalDevice\<close> passes to
  \<open>vkCreateDevice\<close> has exactly one queue-creation entry: for \<open>family\<close>, one queue, priority
  \<open>1.0\<close>. When the driver reports success the device is stored and one call of
  \<open>vkGetDeviceQueue\<close> follows, for \<open>family\<close> and queue index 0, whose queue is stored. When it
  does not, \<open>DeviceCreationFailed\<close> is thrown and no queue is retrieved.
\<close>

theorem createLogicalDevice_single_queue_request:
  assumes "physicalDevice app = Some pd"
    and "graphicsFamily (fst (findQueueFamilies h pd app)) = Some family"
  shows "\<exists>createInfo queueCreateInfo result.
           pQueueCreateInfos createInfo = Some [queueCreateInfo]
           \<and> queueCreateInfoCount createInfo = 1
           \<and> queueFamilyIndex queueCreateInfo = family
           \<and> queueCount queueCreateInfo = 1
           \<and> pQueuePriorities queueCreateInfo = Some [1]
           \<and> result = vkCreateDevice_result h pd createInfo
           \<and> createLogicalDevice enableValidationLayers h app
               = (if result = VK_SUCCESS
                  then (None,
                        app\<lparr>device := Some (createdDevice h),
                            graphicsQueue := Some (deviceQueue h family 0),
                            trace := trace app @ suitabilityQueries pd
                              @ [VkCreateDevice pd createInfo result,
                                 VkGetDeviceQueue (Some (createdDevice h)) family 0]\<rparr>)
                  else (Some DeviceCreationFailed,
                        app\<lparr>trace := trace app @ suitabilityQueries pd
                              @ [VkCreateDevice pd createInfo result]\<rparr>))"
  using assms by (rule createLogicalDevice_request)

text \<open>
  Witness for C9: with device 12 selected (graphics family 1), the call succeeds on the
  host with three devices and ends with the retrieval of queue 0 of family 1; on the host
  whose driver rejects the request it throws and the device member stays null.
\<close>

theorem createLogicalDevice_single_queue_request_witness:
  "physicalDevice (HelloTriangleApplication_new\<lparr>physicalDevice := Some 12\<rparr>) = Some 12
   \<and> graphicsFamily (fst (findQueueFamilies host_three_devices 12
        (HelloTriangleApplication_new\<lparr>physicalDevice := Some 12\<rparr>))) = Some 1
   \<and> fst (createLogicalDevice False host_three_devices
        (HelloTriangleApplication_new\<lparr>physicalDevice := Some 12\<rparr>)) = None
   \<and> graphicsQueue (snd (createLogicalDevice False host_three_devices
        (HelloTriangleApplication_new\<lparr>physicalDevice := Some 12\<rparr>))) = Some 4
   \<and> last (trace (snd (createLogicalDevice False host_three_devices
        (HelloTriangleApplication_new\<lparr>physicalDevice := Some 12\<rparr>))))
       = VkGetDeviceQueue (Some 3) 1 0
   \<and> graphicsFamily (fst (findQueueFamilies host_device_creation_fails 12
        (HelloTriangleApplication_new\<lparr>physicalDevice := Some 12\<rparr>))) = Some 1
   \<and> fst (createLogicalDevice False host_device_creation_fails
        (HelloTriangleApplication_new\<lparr>physicalDevice := Some 12\<rparr>)) = Some DeviceCreationFailed
   \<and> device (snd (createLogicalDevice False host_device_creation_fails
        (HelloTriangleApplication_new\<lparr>physicalDevice := Some 12\<rparr>))) = None"
proof -
  let ?app = "HelloTriangleApplication_new\<lparr>physicalDevice := Some 12\<rparr>"
  have pd: "physicalDevice ?app = Some 12"
    by simp
  have fam: "graphicsFamily (fst (findQueueFamilies host_three_devices 12 ?app)) = Some 1"
    "graphicsFamily (fst (findQueueFamilies host_device_creation_fails 12 ?app)) = Some 1"
    by (simp_all add: findQueueFamilies_fst host_three_devices_def
        host_device_creation_fails_def VK_QUEUE_GRAPHICS_BIT_def isComplete_def)
  have ok: "vkCreateDevice_result host_three_devices pd createInfo = VK_SUCCESS"
    and rejected: "vkCreateDevice_result host_device_creation_fails pd createInfo \<noteq> VK_SUCCESS"
    and handles: "createdDevice host_three_devices = 3" "deviceQueue host_three_devices 1 0 = 4"
    for pd createInfo
    by (simp_all add: host_three_devices_def host_device_creation_fails_def VK_SUCCESS_def)
  from createLogicalDevice_single_queue_request [OF pd fam(1), of False]
  have "fst (createLogicalDevice False host_three_devices ?app) = None
    \<and> graphicsQueue (snd (createLogicalDevice False host_three_devices ?app)) = Some 4
    \<and> last (trace (snd (createLogicalDevice False host_three_devices ?app)))
        = VkGetDeviceQueue (Some 3) 1 0"
    by (auto simp: ok handles)
  moreover
  from createLogicalDevice_single_queue_request [OF pd fam(2), of False]
  have "fst (createLogicalDevice False host_device_creation_fails ?app)
      = Some DeviceCreationFailed
    \<and> device (snd (createLogicalDevice False host_device_creation_fails ?app)) = None"
    by (auto simp: rejected HelloTriangleApplication_new_def)
  ultimately show ?thesis using pd fam by simp
qed

text \<open>
  C10. When the selected physical device \<open>pd\<close> passed the suitability predicate (evaluated
  in any state \<open>app'\<close> of the object), \<open>createLogicalDevice\<close> does not end in
  \<open>std::bad_optional_access\<close>: both reads of \<open>indices.graphicsFamily.value()\<close> find a value.
\<close>

theorem createLogicalDevice_value_access_succeeds:
  assumes pd: "physicalDevice app = Some pd"
    and suitable: "fst (isDeviceSuitable h pd app')"
  shows "fst (createLogicalDevice enableValidationLayers h app) \<noteq> Some BadOptionalAccess"
proof -
  have "hasGraphicsFamily h pd"
    using suitable by (simp add: isDeviceSuitable_eq)
  then have "isComplete (fst (findQueueFamilies h pd app))"
    by (simp add: findQueueFamilies_complete)
  then obtain family where
    family: "graphicsFamily (fst (findQueueFamilies h pd app)) = Some family"
    by (auto simp: isComplete_def)
  from createLogicalDevice_request [OF pd family, of enableValidationLayers]
  show ?thesis by (auto split: if_splits)
qed

text \<open>
  Witness for C10: device 12 passes the predicate on the fresh object, and
  \<open>createLogicalDevice\<close> with device 12 selected does not throw \<open>BadOptionalAccess\<close>.
\<close>

theorem createLogicalDevice_value_access_succeeds_witness:
  "physicalDevice (HelloTriangleApplication_new\<lparr>physicalDevice := Some 12\<rparr>) = Some 12
   \<and> fst (isDeviceSuitable host_three_devices 12 HelloTriangleApplication_new)
   \<and> fst (createLogicalDevice True host_three_devices
        (HelloTriangleApplication_new\<lparr>physicalDevice := Some 12\<rparr>)) \<noteq> Some BadOptionalAccess"
proof -
  have pd: "physicalDevice (HelloTriangleApplication_new\<lparr>physicalDevice := Some 12\<rparr>) = Some 12"
    by simp
  have suitable: "fst (isDeviceSuitable host_three_devices 12 HelloTriangleApplication_new)"
    by (simp add: isDeviceSuitable_def findQueueFamilies_def Let_def host_three_devices_def
        VK_QUEUE_GRAPHICS_BIT_def isComplete_def)
  from createLogicalDevice_value_access_succeeds [OF pd suitable, of True] pd suitable
  show ?thesis by simp
qed

end
